theory Spec2Isabelle
  imports Complex_Main "HOL-Library.Multiset"
begin

section \<open>Import preview (preview-table.tsx)\<close>

text \<open>
  \<^verbatim>\<open>confidenceColor\<close> and \<^verbatim>\<open>confidenceLabel\<close> of
  \<^verbatim>\<open>frontend/src/components/import/preview-table.tsx\<close>. The confidence arrives in the
  JSON body of the upload response, so it is a finite number; it is modelled as a real.
  The translation function \<open>t\<close> of next-intl is a parameter.
\<close>

definition confidenceColor :: "real \<Rightarrow> string" where
  "confidenceColor c =
     (if c \<ge> 0.7 then ''bg-emerald-500''
      else if c \<ge> 0.4 then ''bg-amber-400''
      else ''bg-rose-500'')"

definition confidenceLabel :: "real \<Rightarrow> (string \<Rightarrow> string) \<Rightarrow> string" where
  "confidenceLabel c t =
     (if c \<ge> 0.7 then t ''highConfidence''
      else if c \<ge> 0.4 then t ''mediumConfidence''
      else t ''lowConfidence'')"













section \<open>Strings\<close>

text \<open>
  A JavaScript string of the frontend is modelled by the bytes of its UTF-8 encoding; a
  literal of ASCII characters is itself. \<^verbatim>\<open>startsWith\<close> and \<^verbatim>\<open>endsWith\<close> are the string
  methods of these names; \<^verbatim>\<open>includes\<close> is named \<open>includes_str\<close>.
\<close>

definition startsWith :: "'a list \<Rightarrow> 'a list \<Rightarrow> bool" where
  "startsWith s p = (take (length p) s = p)"

definition endsWith :: "'a list \<Rightarrow> 'a list \<Rightarrow> bool" where
  "endsWith s p = (length p \<le> length s \<and> drop (length s - length p) s = p)"

fun includes_str :: "'a list \<Rightarrow> 'a list \<Rightarrow> bool" where
  "includes_str [] p = (p = [])"
| "includes_str (c # s) p = (startsWith (c # s) p \<or> includes_str s p)"

text \<open>
  \<^verbatim>\<open>String.prototype.trim\<close> removes the white space and the line terminators of ECMAScript
  from both ends: U+0009 to U+000D, U+0020, U+00A0, U+1680, U+2000 to U+200A, U+2028,
  U+2029, U+202F, U+205F, U+3000 and U+FEFF. \<open>whiteSpace\<close> lists their encodings;
  \<open>stripStart\<close> removes from the front of a string every leading occurrence of a text of a
  list, and the end is trimmed on the reversed string.
\<close>

definition whiteSpace :: "string list" where
  "whiteSpace =
     [[CHR 0x09], [CHR 0x0A], [CHR 0x0B], [CHR 0x0C], [CHR 0x0D], [CHR 0x20],
      [CHR 0xC2, CHR 0xA0], [CHR 0xE1, CHR 0x9A, CHR 0x80],
      [CHR 0xE2, CHR 0x80, CHR 0x80], [CHR 0xE2, CHR 0x80, CHR 0x81],
      [CHR 0xE2, CHR 0x80, CHR 0x82], [CHR 0xE2, CHR 0x80, CHR 0x83],
      [CHR 0xE2, CHR 0x80, CHR 0x84], [CHR 0xE2, CHR 0x80, CHR 0x85],
      [CHR 0xE2, CHR 0x80, CHR 0x86], [CHR 0xE2, CHR 0x80, CHR 0x87],
      [CHR 0xE2, CHR 0x80, CHR 0x88], [CHR 0xE2, CHR 0x80, CHR 0x89],
      [CHR 0xE2, CHR 0x80, CHR 0x8A], [CHR 0xE2, CHR 0x80, CHR 0xA8],
      [CHR 0xE2, CHR 0x80, CHR 0xA9], [CHR 0xE2, CHR 0x80, CHR 0xAF],
      [CHR 0xE2, CHR 0x81, CHR 0x9F], [CHR 0xE3, CHR 0x80, CHR 0x80],
      [CHR 0xEF, CHR 0xBB, CHR 0xBF]]"

function stripStart :: "string list \<Rightarrow> string \<Rightarrow> string" where
  "stripStart ws s =
     (case find (\<lambda>w. w \<noteq> [] \<and> startsWith s w) ws of
        Some w \<Rightarrow> stripStart ws (drop (length w) s)
      | None \<Rightarrow> s)"
  by pat_completeness auto

termination
proof (relation "measure (\<lambda>(ws, s). length s)")
  show "wf (measure (\<lambda>(ws, s). length s))" by simp
next
  fix ws :: "string list" and s w :: string
  assume "find (\<lambda>w. w \<noteq> [] \<and> startsWith s w) ws = Some w"
  then have "w \<noteq> []" and "take (length w) s = w"
    by (auto simp: find_Some_iff startsWith_def)
  then have "s \<noteq> []" by auto
  with \<open>w \<noteq> []\<close> show "((ws, drop (length w) s), (ws, s)) \<in> measure (\<lambda>(ws, s). length s)"
    by simp
qed

declare stripStart.simps [simp del]

definition trim :: "string \<Rightarrow> string" where
  "trim s = rev (stripStart (map rev whiteSpace) (rev (stripStart whiteSpace s)))"

text \<open>The decimal rendering of a non-negative integer, as a template literal produces it.\<close>

definition digit_char :: "nat \<Rightarrow> char" where
  "digit_char d = ''0123456789'' ! d"

fun show_nat :: "nat \<Rightarrow> string" where
  "show_nat n = (if n < 10 then [digit_char n] else show_nat (n div 10) @ [digit_char (n mod 10)])"

declare show_nat.simps [simp del]

text \<open>
  \<^verbatim>\<open>toLowerCase\<close>. The ASCII letters are lower-cased, and so is the Kelvin sign (U+212A,
  which JavaScript lower-cases to \<^verbatim>\<open>k\<close>); every other character is left as it is.
  JavaScript lower-cases other letters as well, but never to ASCII characters only, and the
  model compares lower-cased strings with ASCII texts only (MIME types and extensions), so
  the comparisons come out as in JavaScript.
\<close>

definition toLowerCase_char :: "char \<Rightarrow> char" where
  "toLowerCase_char c =
     (case map_of (zip ''ABCDEFGHIJKLMNOPQRSTUVWXYZ'' ''abcdefghijklmnopqrstuvwxyz'') c of
        Some d \<Rightarrow> d | None \<Rightarrow> c)"

fun toLowerCase :: "string \<Rightarrow> string" where
  "toLowerCase (a # b # c # s) =
     (if a = CHR 0xE2 \<and> b = CHR 0x84 \<and> c = CHR 0xAA then CHR ''k'' # toLowerCase s
      else toLowerCase_char a # toLowerCase (b # c # s))"
| "toLowerCase (a # s) = toLowerCase_char a # toLowerCase s"
| "toLowerCase [] = []"

section \<open>File upload zone (upload-zone.tsx)\<close>

text \<open>
  A browser \<^verbatim>\<open>File\<close>: its name, its MIME type as the browser reports it, its size in bytes.
\<close>

record File =
  file_name :: string
  file_type :: string
  file_size :: nat

text \<open>The options \<^verbatim>\<open>UploadZone\<close> passes to \<^verbatim>\<open>useDropzone\<close>.\<close>

record DropzoneOptions =
  accept :: "(string \<times> string list) list"
  maxSize :: nat
  multiple :: bool

definition UploadZone_options :: DropzoneOptions where
  "UploadZone_options =
     \<lparr> accept = [(''text/csv'', [''.csv'']), (''application/pdf'', [''.pdf''])],
       maxSize = 10 * 1024 * 1024,
       multiple = False \<rparr>"

text \<open>
  \<^verbatim>\<open>useDropzone\<close> is the hook of the react-dropzone package, a dependency of the
  repository and not part of it. What it does with a selection or a drop is modelled after
  the package:
  \<^item> the files of the event are read by its file selector (\<open>fromEvent\<close>), which gives a
    file whose type is empty and whose name has an extension the MIME type that the table
    \<^verbatim>\<open>COMMON_MIME_TYPES\<close> has for the lower-cased extension, if it has one
    (\<open>withMimeType\<close>; the table, with lower-case ASCII extensions as keys, is a parameter),
    and which leaves the files named \<^verbatim>\<open>.DS_Store\<close> and \<^verbatim>\<open>Thumbs.db\<close> out of a drop. An
    event is a drop on the zone or a change of its file input, with the files it carries
    (a dropped directory counts as the files in it);
  \<^item> the \<^verbatim>\<open>accept\<close> object is flattened to the list of its MIME types and extensions
    (\<open>acceptPropAsAcceptAttr\<close>);
  \<^item> a file passes the type test (\<open>fileAccepted\<close>) when its type is
    \<^verbatim>\<open>application/x-moz-file\<close>, or when its MIME type equals one of the MIME types or its
    name ends with one of the extensions, both compared in lower case (\<open>accepts\<close>; the
    package also knows wildcard types such as \<^verbatim>\<open>image/*\<close>, which \<^verbatim>\<open>UploadZone\<close> does not
    use and the model leaves out);
  \<^item> it passes the size test when it is not larger than \<^verbatim>\<open>maxSize\<close> (\<open>fileMatchSize\<close>);
  \<^item> the files that pass both tests are the accepted files, the others the rejections,
    and without \<^verbatim>\<open>multiple\<close>, more than one accepted file rejects them all (\<open>setFiles\<close>);
  \<^item> \<^verbatim>\<open>onDrop\<close> is then called with the accepted files.
\<close>

definition withMimeType :: "(string \<rightharpoonup> string) \<Rightarrow> File \<Rightarrow> File" where
  "withMimeType COMMON_MIME_TYPES file =
     (let name = file_name file;
          hasExtension = (CHR ''.'' \<in> set name)
      in if hasExtension \<and> file_type file = [] then
           (let ext = toLowerCase (rev (takeWhile (\<lambda>c. c \<noteq> CHR ''.'') (rev name)))
            in case COMMON_MIME_TYPES ext of
                 Some ty \<Rightarrow> (if ty \<noteq> [] then file\<lparr>file_type := ty\<rparr> else file)
               | None \<Rightarrow> file)
         else file)"

datatype FileEvent = DropEvent "File list" | ChangeEvent "File list"

definition FILES_TO_IGNORE :: "string list" where
  "FILES_TO_IGNORE = [''.DS_Store'', ''Thumbs.db'']"

definition fromEvent :: "(string \<rightharpoonup> string) \<Rightarrow> FileEvent \<Rightarrow> File list" where
  "fromEvent COMMON_MIME_TYPES evt =
     (case evt of
        DropEvent files \<Rightarrow>
          filter (\<lambda>file. file_name file \<notin> set FILES_TO_IGNORE)
            (map (withMimeType COMMON_MIME_TYPES) files)
      | ChangeEvent files \<Rightarrow> map (withMimeType COMMON_MIME_TYPES) files)"

definition acceptPropAsAcceptAttr :: "(string \<times> string list) list \<Rightarrow> string list" where
  "acceptPropAsAcceptAttr a = concat (map (\<lambda>(mime, exts). mime # exts) a)"

definition accepts :: "File \<Rightarrow> string list \<Rightarrow> bool" where
  "accepts file acceptAttr =
     list_ex (\<lambda>ty.
        let validType = toLowerCase (trim ty) in
        if startsWith validType ''.'' then endsWith (toLowerCase (file_name file)) validType
        else toLowerCase (file_type file) = validType) acceptAttr"

definition fileAccepted :: "File \<Rightarrow> string list \<Rightarrow> bool" where
  "fileAccepted file acceptAttr =
     (file_type file = ''application/x-moz-file'' \<or> accepts file acceptAttr)"

definition fileMatchSize :: "File \<Rightarrow> nat \<Rightarrow> bool" where
  "fileMatchSize file maxS = (\<not> file_size file > maxS)"

definition setFiles :: "DropzoneOptions \<Rightarrow> File list \<Rightarrow> File list \<times> File list" where
  "setFiles opts files =
     (let ok = (\<lambda>file. fileAccepted file (acceptPropAsAcceptAttr (accept opts)) \<and>
                         fileMatchSize file (maxSize opts));
          acceptedFiles = filter ok files;
          fileRejections = filter (\<lambda>file. \<not> ok file) files
      in if \<not> multiple opts \<and> length acceptedFiles > 1
         then ([], fileRejections @ acceptedFiles)
         else (acceptedFiles, fileRejections))"

text \<open>
  \<^verbatim>\<open>onDrop\<close> of \<^verbatim>\<open>UploadZone\<close>. The result is the list of the files \<^verbatim>\<open>onFileSelect\<close> is
  called with, in the order of the calls.
\<close>

definition onDrop :: "File list \<Rightarrow> File list" where
  "onDrop accepted = (if length accepted > 0 then [accepted ! 0] else [])"

text \<open>A drop or a selection on the zone: the calls of \<^verbatim>\<open>onFileSelect\<close> it causes.\<close>

definition UploadZone_drop :: "(string \<rightharpoonup> string) \<Rightarrow> FileEvent \<Rightarrow> File list" where
  "UploadZone_drop COMMON_MIME_TYPES evt =
     onDrop (fst (setFiles UploadZone_options (fromEvent COMMON_MIME_TYPES evt)))"

section \<open>Categorization rules: the rule form and the rules list\<close>

text \<open>
  \<^verbatim>\<open>Category\<close> and \<^verbatim>\<open>CategorizationRule\<close> are declared in \<^verbatim>\<open>@/lib/mock-categories\<close>; the
  fields below are the ones \<^verbatim>\<open>RuleForm\<close> and \<^verbatim>\<open>RulesList\<close> read and write. TypeScript's
  types are erased at run time, so \<^verbatim>\<open>matchType\<close> is a string here and nothing is assumed
  about its value. \<^verbatim>\<open>id\<close> is renamed \<open>rule_id\<close>.
\<close>

record Category =
  cat_id :: string
  cat_name :: string
  cat_parentId :: "string option"

record CategorizationRule =
  rule_id :: string
  pattern :: string
  matchType :: string
  categoryId :: string
  categoryName :: string
  priority :: int

definition MATCH_TYPES :: "string list" where
  "MATCH_TYPES = [''contains'', ''exact'', ''regex'', ''starts_with'']"

definition MATCH_KEYS :: "(string \<times> string) list" where
  "MATCH_KEYS =
     [(''contains'', ''matchContains''), (''exact'', ''matchExact''),
      (''regex'', ''matchRegex''), (''starts_with'', ''matchStartsWith'')]"

text \<open>The four \<^verbatim>\<open>useState\<close> cells of \<^verbatim>\<open>RuleForm\<close>, initialised from the rule being edited.\<close>

record RuleFormState =
  st_pattern :: string
  st_matchType :: string
  st_categoryId :: string
  st_priority :: int

definition RuleForm_init :: "CategorizationRule option \<Rightarrow> RuleFormState" where
  "RuleForm_init rule =
     \<lparr> st_pattern = (case rule of Some r \<Rightarrow> pattern r | None \<Rightarrow> []),
       st_matchType = (case rule of Some r \<Rightarrow> matchType r | None \<Rightarrow> ''contains''),
       st_categoryId = (case rule of Some r \<Rightarrow> categoryId r | None \<Rightarrow> []),
       st_priority = (case rule of Some r \<Rightarrow> priority r | None \<Rightarrow> 10) \<rparr>"

text \<open>
  The \<^verbatim>\<open>onChange\<close> handlers of the four inputs. The event carries \<^verbatim>\<open>e.target.value\<close>; for
  the priority input it carries \<^verbatim>\<open>Number(e.target.value)\<close>. The match-type handler stores
  the value as it comes (\<^verbatim>\<open>e.target.value as MatchType\<close> is a cast, not a check).
\<close>

datatype FormEvent =
  SetPattern string | SetMatchType string | SetCategoryId string | SetPriority int

fun RuleForm_change :: "RuleFormState \<Rightarrow> FormEvent \<Rightarrow> RuleFormState" where
  "RuleForm_change st (SetPattern v) = st\<lparr>st_pattern := v\<rparr>"
| "RuleForm_change st (SetMatchType v) = st\<lparr>st_matchType := v\<rparr>"
| "RuleForm_change st (SetCategoryId v) = st\<lparr>st_categoryId := v\<rparr>"
| "RuleForm_change st (SetPriority v) = st\<lparr>st_priority := v\<rparr>"

text \<open>The options the match-type \<^verbatim>\<open><select>\<close> renders: value and translation key.\<close>

definition RuleForm_matchOptions :: "(string \<times> string option) list" where
  "RuleForm_matchOptions = map (\<lambda>mt. (mt, map_of MATCH_KEYS mt)) MATCH_TYPES"

text \<open>
  A \<^verbatim>\<open><select>\<close> reports the value of one of its options: this is what the browser
  guarantees about a change event of the match-type input.
\<close>

fun event_ok :: "FormEvent \<Rightarrow> bool" where
  "event_ok (SetMatchType v) = (v \<in> set (map fst RuleForm_matchOptions))"
| "event_ok _ = True"

text \<open>
  \<^verbatim>\<open>handleSubmit\<close>: \<open>None\<close> is the early return, \<open>Some saved\<close> the rule passed to
  \<^verbatim>\<open>onSave\<close>. \<open>now\<close> is \<^verbatim>\<open>Date.now()\<close>.
\<close>

definition handleSubmit ::
  "CategorizationRule option \<Rightarrow> Category list \<Rightarrow> nat \<Rightarrow> RuleFormState \<Rightarrow> CategorizationRule option" where
  "handleSubmit rule categories now st =
     (if trim (st_pattern st) = [] \<or> st_categoryId st = [] then None
      else
        let selectedCat = find (\<lambda>c. cat_id c = st_categoryId st) categories
        in Some \<lparr> rule_id = (case rule of Some r \<Rightarrow> rule_id r | None \<Rightarrow> ''rule-'' @ show_nat now),
                  pattern = trim (st_pattern st),
                  matchType = st_matchType st,
                  categoryId = st_categoryId st,
                  categoryName = (case selectedCat of Some c \<Rightarrow> cat_name c | None \<Rightarrow> []),
                  priority = st_priority st \<rparr>)"

subsection \<open>The rules list\<close>

text \<open>
  \<^verbatim>\<open>Array.prototype.sort\<close> with a comparator: the elements are reordered so that the
  comparator is non-positive between an element and its successors, and elements that
  compare equal keep their order (the sort is stable since ES2019). It is modelled by
  insertion from the right.
\<close>

fun insert_cmp :: "('a \<Rightarrow> 'a \<Rightarrow> int) \<Rightarrow> 'a \<Rightarrow> 'a list \<Rightarrow> 'a list" where
  "insert_cmp cmp x [] = [x]"
| "insert_cmp cmp x (y # ys) =
     (if cmp x y \<le> 0 then x # y # ys else y # insert_cmp cmp x ys)"

definition Array_sort :: "('a \<Rightarrow> 'a \<Rightarrow> int) \<Rightarrow> 'a list \<Rightarrow> 'a list" where
  "Array_sort cmp xs = foldr (insert_cmp cmp) xs []"

text \<open>
  The body of the rules table: \<^verbatim>\<open>rules.sort((a, b) => b.priority - a.priority).map(...)\<close>,
  one \<^verbatim>\<open><tr>\<close> per rule, in the sorted order.
\<close>

definition RulesList_rows :: "CategorizationRule list \<Rightarrow> CategorizationRule list" where
  "RulesList_rows rules = Array_sort (\<lambda>a b. priority b - priority a) rules"

section \<open>The import core: parsing and categorization\<close>

text \<open>
  The normalization utilities, the source parsers and the categorization engine are code
  of the repository's backend (\<^verbatim>\<open>backend/app/services/parser\<close> and
  \<^verbatim>\<open>backend/app/services/categorization\<close>), which is not among the sources; the frontend
  calls it through \<^verbatim>\<open>/imports/upload\<close>. Every definition of this section is therefore
  modelled from the specification, and says so.

  A text of the backend is a Python \<^verbatim>\<open>str\<close>: the list of its Unicode code points. \<open>u\<close>
  turns an ASCII literal into such a text. Amounts are exact decimals, modelled as rationals.
\<close>

type_synonym ustring = "nat list"

definition u :: "string \<Rightarrow> ustring" where
  "u s = map of_char s"

text \<open>
  Modelled from the spec: the white space and the case folding that "whitespace-trimmed" and
  "case-insensitive" refer to (blank, tab, line feed, carriage return, no-break space, narrow
  no-break space; the ASCII letters).
\<close>

definition isBlank :: "nat \<Rightarrow> bool" where
  "isBlank c = (c \<in> {0x20, 0x09, 0x0A, 0x0D, 0xA0, 0x202F})"

definition strip :: "ustring \<Rightarrow> ustring" where
  "strip s = rev (dropWhile isBlank (rev (dropWhile isBlank s)))"

definition lower :: "ustring \<Rightarrow> ustring" where
  "lower s = map (\<lambda>c. if 65 \<le> c \<and> c \<le> 90 then c + 32 else c) s"

fun splitOn :: "nat \<Rightarrow> ustring \<Rightarrow> ustring list" where
  "splitOn d [] = [[]]"
| "splitOn d (c # cs) =
     (if c = d then [] # splitOn d cs
      else (case splitOn d cs of f # fs \<Rightarrow> (c # f) # fs | [] \<Rightarrow> [[c]]))"

subsection \<open>Normalization utilities\<close>

text \<open>
  Modelled from the spec: the row-local normalization failures \<^verbatim>\<open>DateFormatError\<close> and
  \<^verbatim>\<open>AmountFormatError\<close> of the error taxonomy.
\<close>

datatype NormError = DateFormatError | AmountFormatError

text \<open>
  Modelled from the spec: decimal digits. \<open>digits n\<close> is the decimal numeral of \<open>n\<close>,
  \<open>digits_val\<close> reads one back.
\<close>

definition isDigit :: "nat \<Rightarrow> bool" where
  "isDigit c = (48 \<le> c \<and> c \<le> 57)"

fun digits :: "nat \<Rightarrow> ustring" where
  "digits n = (if n < 10 then [48 + n] else digits (n div 10) @ [48 + n mod 10])"

declare digits.simps [simp del]

definition digits_val :: "ustring \<Rightarrow> nat" where
  "digits_val ds = foldl (\<lambda>acc c. 10 * acc + (c - 48)) 0 ds"

text \<open>
  Modelled from the spec: \<^verbatim>\<open>parseLocalizedAmount\<close>, which "strips currency symbols and
  thousands separators (\<open>.\<close> in Italian convention), converts decimal comma to decimal
  point, preserves sign; fails with \<^verbatim>\<open>AmountFormatError\<close> on non-numeric residue", in exact
  decimal arithmetic. The currency symbols are the euro, dollar and pound signs; the white
  space around them goes with them. What is left must be an optional sign (45 is \<open>-\<close>, 43
  is \<open>+\<close>), digits, and at most one comma (44) followed by digits, with a digit somewhere.
\<close>

definition isCurrencySymbol :: "nat \<Rightarrow> bool" where
  "isCurrencySymbol c = (c \<in> {0x20AC, 0x24, 0xA3})"

abbreviation keep :: "nat \<Rightarrow> bool" where
  "keep \<equiv> (\<lambda>c. \<not> isCurrencySymbol c \<and> \<not> isBlank c \<and> c \<noteq> 46)"

definition parseLocalizedAmount :: "ustring \<Rightarrow> NormError + rat" where
  "parseLocalizedAmount txt =
     (let s = filter keep txt;
          neg = (s \<noteq> [] \<and> hd s = 45);
          body = (if s \<noteq> [] \<and> (hd s = 45 \<or> hd s = 43) then tl s else s);
          ip = takeWhile (\<lambda>c. c \<noteq> 44) body;
          rest = dropWhile (\<lambda>c. c \<noteq> 44) body;
          fp = (if rest = [] then [] else tl rest)
      in if (ip = [] \<and> fp = []) \<or> \<not> list_all isDigit ip \<or> \<not> list_all isDigit fp
         then Inl AmountFormatError
         else
           let v = of_nat (digits_val ip) + of_nat (digits_val fp) / 10 ^ length fp
           in Inr (if neg then - v else v))"

text \<open>
  Modelled from the spec: \<^verbatim>\<open>parseLocalizedDate\<close>, which "tries formats in priority order
  dd/mm/yyyy, dd-mm-yyyy, dd.mm.yyyy, then ISO yyyy-mm-dd; fails with \<^verbatim>\<open>DateFormatError\<close>
  if none match". A date is a calendar day: year, month, day.
\<close>

definition numeric :: "ustring \<Rightarrow> bool" where
  "numeric s = (s \<noteq> [] \<and> list_all isDigit s)"

definition days_in_month :: "nat \<Rightarrow> nat \<Rightarrow> nat" where
  "days_in_month y m =
     (if m = 2 then (if (y mod 4 = 0 \<and> y mod 100 \<noteq> 0) \<or> y mod 400 = 0 then 29 else 28)
      else if m \<in> {4, 6, 9, 11} then 30 else 31)"

definition calendar_day :: "ustring \<Rightarrow> ustring \<Rightarrow> ustring \<Rightarrow> (nat \<times> nat \<times> nat) option" where
  "calendar_day ys ms ds =
     (if numeric ys \<and> length ys = 4 \<and> numeric ms \<and> length ms \<le> 2 \<and> numeric ds \<and> length ds \<le> 2
      then
        let y = digits_val ys; m = digits_val ms; d = digits_val ds
        in if 1 \<le> m \<and> m \<le> 12 \<and> 1 \<le> d \<and> d \<le> days_in_month y m then Some (y, m, d) else None
      else None)"

definition parse_dmy :: "nat \<Rightarrow> ustring \<Rightarrow> (nat \<times> nat \<times> nat) option" where
  "parse_dmy sep s = (case splitOn sep s of [ds, ms, ys] \<Rightarrow> calendar_day ys ms ds | _ \<Rightarrow> None)"

definition parse_ymd :: "ustring \<Rightarrow> (nat \<times> nat \<times> nat) option" where
  "parse_ymd s = (case splitOn 45 s of [ys, ms, ds] \<Rightarrow> calendar_day ys ms ds | _ \<Rightarrow> None)"

definition parseLocalizedDate :: "ustring \<Rightarrow> NormError + (nat \<times> nat \<times> nat)" where
  "parseLocalizedDate txt =
     (let s = strip txt in
      case parse_dmy 47 s of Some d \<Rightarrow> Inr d | None \<Rightarrow>
      (case parse_dmy 45 s of Some d \<Rightarrow> Inr d | None \<Rightarrow>
      (case parse_dmy 46 s of Some d \<Rightarrow> Inr d | None \<Rightarrow>
      (case parse_ymd s of Some d \<Rightarrow> Inr d | None \<Rightarrow> Inl DateFormatError))))"

subsection \<open>Source parsers\<close>

text \<open>
  Modelled from the spec: \<^verbatim>\<open>RawTransaction\<close> and \<^verbatim>\<open>ParseResult\<close> of the data model. The
  fields of \<^verbatim>\<open>RawTransaction\<close> carry the prefix \<open>raw_\<close>.
\<close>

datatype TxType = Income | Expense | Transfer

datatype SourceType = Bank_csv | Satispay | Paypal | Pdf

record RawTransaction =
  raw_date :: "nat \<times> nat \<times> nat"
  raw_amount :: rat
  raw_currency :: ustring
  raw_description :: ustring
  raw_original_description :: ustring
  raw_type :: TxType
  raw_metadata :: "(ustring \<times> ustring) list"

record ParseResult =
  transactions :: "RawTransaction list"
  source_type :: SourceType
  row_count :: nat
  parsed_count :: nat
  errors :: "ustring list"

text \<open>
  Modelled from the spec: what a parser makes of one row. A row is skipped (a blank line),
  or it is malformed (its normalization raised, and the parser caught the failure), or it
  is converted to a transaction.
\<close>

datatype RowResult = Skipped | Malformed NormError | Parsed RawTransaction

fun isParsed :: "RowResult \<Rightarrow> bool" where
  "isParsed (Parsed tx) = True"
| "isParsed _ = False"

fun isMalformed :: "RowResult \<Rightarrow> bool" where
  "isMalformed (Malformed e) = True"
| "isMalformed _ = False"

text \<open>
  Modelled from the spec: the entry of \<^verbatim>\<open>errors\<close> for a malformed row, "including enough
  context (row index, raw content) to let a user locate the problem".
\<close>

definition error_text :: "nat \<Rightarrow> ustring \<Rightarrow> NormError \<Rightarrow> ustring" where
  "error_text i row e =
     u ''Row '' @ digits i @ u '': '' @
     (case e of DateFormatError \<Rightarrow> u ''DateFormatError'' | AmountFormatError \<Rightarrow> u ''AmountFormatError'') @
     u '': '' @ row"

text \<open>
  Modelled from the spec: the loop of \<^verbatim>\<open>parse\<close> over the data rows. It "must process every
  row independently -- a single malformed row appends to \<^verbatim>\<open>errors\<close> and continues; it never
  aborts the whole file". \<open>parseRow\<close> is the row conversion of the parser at hand (Bank-CSV,
  Satispay-CSV, PayPal-CSV, or the rows recovered from a PDF table); \<open>i\<close> is the index of the
  row. \<^verbatim>\<open>row_count\<close> counts the rows encountered, \<^verbatim>\<open>parsed_count\<close> those converted.
\<close>

fun parse_rows :: "(ustring \<Rightarrow> RowResult) \<Rightarrow> nat \<Rightarrow> ustring list \<Rightarrow> ParseResult \<Rightarrow> ParseResult" where
  "parse_rows parseRow i [] res = res"
| "parse_rows parseRow i (row # rows) res =
     parse_rows parseRow (Suc i) rows
       (case parseRow row of
          Skipped \<Rightarrow> res\<lparr>row_count := row_count res + 1\<rparr>
        | Malformed e \<Rightarrow>
            res\<lparr>row_count := row_count res + 1, errors := errors res @ [error_text i row e]\<rparr>
        | Parsed tx \<Rightarrow>
            res\<lparr>transactions := transactions res @ [tx], row_count := row_count res + 1,
                parsed_count := parsed_count res + 1\<rparr>)"

text \<open>
  Modelled from the spec: \<^verbatim>\<open>parse\<close> on the lines of a CSV file, the header line first. A
  file without even a header is the "empty/truncated CSV" that fails the whole parse with
  \<^verbatim>\<open>UnreadableFileError\<close>; \<^verbatim>\<open>NoParserMatchedError\<close> is the registry's.
\<close>

datatype FileError = NoParserMatchedError | UnreadableFileError

definition parse :: "SourceType \<Rightarrow> (ustring \<Rightarrow> RowResult) \<Rightarrow> ustring list \<Rightarrow> FileError + ParseResult" where
  "parse src parseRow lines =
     (case lines of
        [] \<Rightarrow> Inl UnreadableFileError
      | header # rows \<Rightarrow>
          Inr (parse_rows parseRow 1 rows
                 \<lparr>transactions = [], source_type = src, row_count = 0, parsed_count = 0,
                  errors = []\<rparr>))"

text \<open>
  Modelled from the spec: the row conversion of the Bank-CSV parser for the layout with a
  single signed amount column (date, amount, description, as in the row
  \<^verbatim>\<open>25/02/2025;-89,50;ADDEBITO SDD ENEL ENERGIA\<close>). \<open>delim\<close> is the delimiter sampled from
  the header. The type is inferred from the sign of the amount, the currency defaults to
  EUR.
\<close>

definition field :: "ustring list \<Rightarrow> nat \<Rightarrow> ustring" where
  "field fs i = (if i < length fs then fs ! i else [])"

definition bankCsvRow :: "nat \<Rightarrow> ustring \<Rightarrow> RowResult" where
  "bankCsvRow delim row =
     (let fs = splitOn delim row in
      if list_all (\<lambda>f. strip f = []) fs then Skipped
      else
        case parseLocalizedDate (field fs 0) of
          Inl e \<Rightarrow> Malformed e
        | Inr d \<Rightarrow>
            (case parseLocalizedAmount (field fs 1) of
               Inl e \<Rightarrow> Malformed e
             | Inr a \<Rightarrow>
                 Parsed \<lparr> raw_date = d, raw_amount = a, raw_currency = u ''EUR'',
                          raw_description = strip (field fs 2),
                          raw_original_description = field fs 2,
                          raw_type = (if a > 0 then Income else Expense),
                          raw_metadata = [] \<rparr>))"

subsection \<open>Categorization engine\<close>

text \<open>
  Modelled from the spec: \<^verbatim>\<open>CategorizationRule\<close> as the engine consumes it (named
  \<open>EngineRule\<close> here, its fields with the prefix \<open>r_\<close>, since the frontend has a record of
  the same name) and \<^verbatim>\<open>CategoryAssignment\<close> (fields with the prefix \<open>ca_\<close>).
\<close>

datatype MatchType = Contains | Exact | Regex | StartsWith

datatype Scope = User | System

record EngineRule =
  r_pattern :: ustring
  r_match_type :: MatchType
  r_category_id :: ustring
  r_priority :: int
  r_scope :: Scope

datatype MatchedBy = UserRule | Keyword | Pattern | Fallback

record CategoryAssignment =
  ca_category_id :: ustring
  ca_confidence :: rat
  ca_matched_by :: MatchedBy

text \<open>
  Modelled from the spec: the static configuration of the engine, "loaded once at process
  start and treated as read-only": the keyword dictionary (keyword, category) and the
  pattern dictionary (regular expression, category), in scan order. The regular-expression
  engine is a parameter: \<open>regex_search p s\<close> is \<open>Some b\<close> when searching \<open>s\<close> for \<open>p\<close>
  returns \<open>b\<close>, and \<open>None\<close> when the expression raises at match time. The accent
  normalization and the two scoring heuristics, for which the specification gives ranges
  and no formula, are parameters as well.
\<close>

record Engine =
  keyword_dict :: "(ustring \<times> ustring) list"
  pattern_dict :: "(ustring \<times> ustring) list"
  regex_search :: "ustring \<Rightarrow> ustring \<Rightarrow> bool option"
  normalize_accents :: "ustring \<Rightarrow> ustring"
  keyword_score :: "ustring \<Rightarrow> ustring \<Rightarrow> rat"
  pattern_score :: "ustring \<Rightarrow> ustring \<Rightarrow> rat"

text \<open>
  Modelled from the spec: the match-type semantics. "\<^verbatim>\<open>contains\<close> = case-insensitive
  substring; \<^verbatim>\<open>exact\<close> = case-insensitive full-string equality after trim; \<^verbatim>\<open>regex\<close> =
  compiled regular expression search", where the engine "must still catch and skip-with-log
  any regex that throws at match time"; "\<^verbatim>\<open>starts_with\<close> = case-insensitive prefix match".
\<close>

definition rule_matches :: "Engine \<Rightarrow> EngineRule \<Rightarrow> ustring \<Rightarrow> bool" where
  "rule_matches eng r txt =
     (case r_match_type r of
        Contains \<Rightarrow> includes_str (lower txt) (lower (r_pattern r))
      | Exact \<Rightarrow> lower (strip txt) = lower (strip (r_pattern r))
      | Regex \<Rightarrow> (case regex_search eng (r_pattern r) txt of Some b \<Rightarrow> b | None \<Rightarrow> False)
      | StartsWith \<Rightarrow> startsWith (lower txt) (lower (r_pattern r)))"

definition into_range :: "rat \<Rightarrow> rat \<Rightarrow> rat \<Rightarrow> rat" where
  "into_range lo hi x = (if x < lo then lo else if hi < x then hi else x)"

text \<open>
  Modelled from the spec: the user-rule tier. "Iterate user-owned rules, highest priority
  first; first rule whose pattern matches the description wins: confidence 1.0,
  \<^verbatim>\<open>matched_by = user_rule\<close>"; ties are broken by creation order, which is the order of
  the rule list (the sort is stable).
\<close>

definition user_tier :: "Engine \<Rightarrow> RawTransaction \<Rightarrow> EngineRule list \<Rightarrow> CategoryAssignment option" where
  "user_tier eng tx rules =
     (case find (\<lambda>r. rule_matches eng r (raw_description tx))
             (sort_key (\<lambda>r. - r_priority r) (filter (\<lambda>r. r_scope r = User) rules)) of
        Some r \<Rightarrow>
          Some \<lparr>ca_category_id = r_category_id r, ca_confidence = 1, ca_matched_by = UserRule\<rparr>
      | None \<Rightarrow> None)"

text \<open>
  Modelled from the spec: the keyword tier scans the keyword dictionary "against a
  lower-cased, accent-normalized description; first match wins", with a confidence in
  [0.5, 0.9]; the pattern tier scans the pattern dictionary "against
  \<^verbatim>\<open>original_description\<close>; first match wins", with a confidence in [0.4, 0.7].
\<close>

definition keyword_tier :: "Engine \<Rightarrow> RawTransaction \<Rightarrow> CategoryAssignment option" where
  "keyword_tier eng tx =
     (let d = normalize_accents eng (lower (raw_description tx)) in
      case find (\<lambda>(k, c). includes_str d k) (keyword_dict eng) of
        Some (k, c) \<Rightarrow>
          Some \<lparr>ca_category_id = c, ca_confidence = into_range 0.5 0.9 (keyword_score eng k d),
                ca_matched_by = Keyword\<rparr>
      | None \<Rightarrow> None)"

definition pattern_tier :: "Engine \<Rightarrow> RawTransaction \<Rightarrow> CategoryAssignment option" where
  "pattern_tier eng tx =
     (let d = raw_original_description tx in
      case find (\<lambda>(p, c). regex_search eng p d = Some True) (pattern_dict eng) of
        Some (p, c) \<Rightarrow>
          Some \<lparr>ca_category_id = c, ca_confidence = into_range 0.4 0.7 (pattern_score eng p d),
                ca_matched_by = Pattern\<rparr>
      | None \<Rightarrow> None)"

text \<open>
  Modelled from the spec: \<^verbatim>\<open>categorize\<close>, the "sequential short-circuit cascade" user
  rules, keyword dictionary, pattern dictionary, fallback; the fallback is the sentinel
  category with confidence 0.0.
\<close>

definition categorize :: "Engine \<Rightarrow> RawTransaction \<Rightarrow> EngineRule list \<Rightarrow> CategoryAssignment" where
  "categorize eng tx rules =
     (case user_tier eng tx rules of
        Some a \<Rightarrow> a
      | None \<Rightarrow>
          (case keyword_tier eng tx of
             Some a \<Rightarrow> a
           | None \<Rightarrow>
               (case pattern_tier eng tx of
                  Some a \<Rightarrow> a
                | None \<Rightarrow>
                    \<lparr>ca_category_id = u ''uncategorized'', ca_confidence = 0,
                     ca_matched_by = Fallback\<rparr>)))"

section \<open>Theorems\<close>

subsection \<open>Rules list\<close>

lemma set_insert_cmp: "set (insert_cmp cmp x ys) = insert x (set ys)"
  by (induction ys) auto

lemma mset_insert_cmp: "mset (insert_cmp cmp x ys) = add_mset x (mset ys)"
  by (induction ys) auto

lemma mset_Array_sort: "mset (Array_sort cmp xs) = mset xs"
  unfolding Array_sort_def by (induction xs) (simp_all add: mset_insert_cmp)

lemma sorted_insert_priority:
  "sorted_wrt (\<lambda>a b. priority a \<ge> priority b) ys \<Longrightarrow>
   sorted_wrt (\<lambda>a b. priority a \<ge> priority b) (insert_cmp (\<lambda>a b. priority b - priority a) x ys)"
proof (induction ys)
  case Nil
  then show ?case by simp
next
  case (Cons y ys)
  show ?case
  proof (cases "priority y - priority x \<le> 0")
    case True
    with Cons.prems show ?thesis by fastforce
  next
    case False
    with Cons show ?thesis by (auto simp: set_insert_cmp)
  qed
qed

text \<open>
  C8. The rules table lists the rules by non-increasing priority: a rule that precedes
  another in the rendered rows has a priority at least as high; the rows are the given
  rules, each once.
\<close>

theorem rules_list_priority_order:
  "sorted_wrt (\<lambda>a b. priority a \<ge> priority b) (RulesList_rows rules) \<and>
   mset (RulesList_rows rules) = mset rules"
proof
  show "sorted_wrt (\<lambda>a b. priority a \<ge> priority b) (RulesList_rows rules)"
    unfolding RulesList_rows_def Array_sort_def
    by (induction rules) (simp_all add: sorted_insert_priority)
  show "mset (RulesList_rows rules) = mset rules"
    unfolding RulesList_rows_def by (rule mset_Array_sort)
qed

subsection \<open>Rule form\<close>

lemma RuleForm_change_matchType:
  "event_ok e \<Longrightarrow> st_matchType st \<in> set MATCH_TYPES \<Longrightarrow>
   st_matchType (RuleForm_change st e) \<in> set MATCH_TYPES"
  by (cases e) (simp_all add: RuleForm_matchOptions_def comp_def)

lemma RuleForm_run_matchType:
  "list_all event_ok es \<Longrightarrow> st_matchType st \<in> set MATCH_TYPES \<Longrightarrow>
   st_matchType (foldl RuleForm_change st es) \<in> set MATCH_TYPES"
  by (induction es arbitrary: st) (simp_all add: RuleForm_change_matchType)

lemma handleSubmit_matchType:
  "handleSubmit rule categories now st = Some saved \<Longrightarrow> matchType saved = st_matchType st"
  by (auto simp: handleSubmit_def Let_def split: if_splits)

text \<open>
  C6. The match types are exactly contains, exact, regex and starts_with. The form offers
  these four, each once, each with its label; and whatever the user does with the form (any
  sequence of change events, the match-type select reporting one of its options), a rule
  that the form saves carries one of the four, provided the rule being edited, if any,
  carried one of them.
\<close>

theorem rule_form_match_types:
  assumes "case rule of Some r \<Rightarrow> matchType r \<in> set MATCH_TYPES | None \<Rightarrow> True"
    and "list_all event_ok events"
    and "handleSubmit rule categories now (foldl RuleForm_change (RuleForm_init rule) events) = Some saved"
  shows "matchType saved \<in> {''contains'', ''exact'', ''regex'', ''starts_with''} \<and>
         set MATCH_TYPES = {''contains'', ''exact'', ''regex'', ''starts_with''} \<and>
         distinct MATCH_TYPES \<and>
         RuleForm_matchOptions =
           [(''contains'', Some ''matchContains''), (''exact'', Some ''matchExact''),
            (''regex'', Some ''matchRegex''), (''starts_with'', Some ''matchStartsWith'')]"
proof -
  have init: "st_matchType (RuleForm_init rule) \<in> set MATCH_TYPES"
    using assms(1) by (cases rule) (simp_all add: RuleForm_init_def MATCH_TYPES_def)
  have "st_matchType (foldl RuleForm_change (RuleForm_init rule) events) \<in> set MATCH_TYPES"
    by (rule RuleForm_run_matchType [OF assms(2) init])
  with handleSubmit_matchType [OF assms(3)] have "matchType saved \<in> set MATCH_TYPES"
    by simp
  moreover have "set MATCH_TYPES = {''contains'', ''exact'', ''regex'', ''starts_with''}"
    by (simp add: MATCH_TYPES_def)
  moreover have "distinct MATCH_TYPES"
    by (simp add: MATCH_TYPES_def)
  moreover have "RuleForm_matchOptions =
           [(''contains'', Some ''matchContains''), (''exact'', Some ''matchExact''),
            (''regex'', Some ''matchRegex''), (''starts_with'', Some ''matchStartsWith'')]"
    by (simp add: RuleForm_matchOptions_def MATCH_TYPES_def MATCH_KEYS_def)
  ultimately show ?thesis by simp
qed

theorem rule_form_match_types_witness:
  "(case (None :: CategorizationRule option) of
      Some r \<Rightarrow> matchType r \<in> set MATCH_TYPES | None \<Rightarrow> True) \<and>
   list_all event_ok
     [SetPattern '' ESSELUNGA '', SetMatchType ''regex'', SetCategoryId ''c1'', SetPriority 20] \<and>
   handleSubmit None [\<lparr>cat_id = ''c1'', cat_name = ''Spesa'', cat_parentId = None\<rparr>] 42
     (foldl RuleForm_change (RuleForm_init None)
        [SetPattern '' ESSELUNGA '', SetMatchType ''regex'', SetCategoryId ''c1'', SetPriority 20])
     = Some \<lparr>rule_id = ''rule-42'', pattern = ''ESSELUNGA'', matchType = ''regex'',
              categoryId = ''c1'', categoryName = ''Spesa'', priority = 20\<rparr> \<and>
   matchType \<lparr>rule_id = ''rule-42'', pattern = ''ESSELUNGA'', matchType = ''regex'',
              categoryId = ''c1'', categoryName = ''Spesa'', priority = 20\<rparr>
     \<in> {''contains'', ''exact'', ''regex'', ''starts_with''}"
proof -
  have h1: "case (None :: CategorizationRule option) of
              Some r \<Rightarrow> matchType r \<in> set MATCH_TYPES | None \<Rightarrow> True"
    by simp
  have h2: "list_all event_ok
     [SetPattern '' ESSELUNGA '', SetMatchType ''regex'', SetCategoryId ''c1'', SetPriority 20]"
    by code_simp
  have h3: "handleSubmit None [\<lparr>cat_id = ''c1'', cat_name = ''Spesa'', cat_parentId = None\<rparr>] 42
     (foldl RuleForm_change (RuleForm_init None)
        [SetPattern '' ESSELUNGA '', SetMatchType ''regex'', SetCategoryId ''c1'', SetPriority 20])
     = Some \<lparr>rule_id = ''rule-42'', pattern = ''ESSELUNGA'', matchType = ''regex'',
              categoryId = ''c1'', categoryName = ''Spesa'', priority = 20\<rparr>"
    by code_simp
  from rule_form_match_types [OF h1 h2 h3] h1 h2 h3 show ?thesis by blast
qed

subsection \<open>Upload zone\<close>

lemma attr_norm:
  "toLowerCase (trim ''text/csv'') = ''text/csv''"
  "toLowerCase (trim ''.csv'') = ''.csv''"
  "toLowerCase (trim ''application/pdf'') = ''application/pdf''"
  "toLowerCase (trim ''.pdf'') = ''.pdf''"
  by code_simp+

lemma attr_dot:
  "\<not> startsWith ''text/csv'' ''.''" "startsWith ''.csv'' ''.''"
  "\<not> startsWith ''application/pdf'' ''.''" "startsWith ''.pdf'' ''.''"
  by (simp_all add: startsWith_def)

lemma accepts_UploadZone:
  "accepts f (acceptPropAsAcceptAttr (accept UploadZone_options)) =
   (toLowerCase (file_type f) = ''text/csv'' \<or> endsWith (toLowerCase (file_name f)) ''.csv'' \<or>
    toLowerCase (file_type f) = ''application/pdf'' \<or> endsWith (toLowerCase (file_name f)) ''.pdf'')"
  by (simp add: accepts_def acceptPropAsAcceptAttr_def UploadZone_options_def Let_def attr_norm attr_dot)

lemma set_onDrop: "set (onDrop fs) \<subseteq> set fs"
  by (cases fs) (simp_all add: onDrop_def)

lemma length_onDrop: "length (onDrop fs) \<le> 1"
  by (simp add: onDrop_def)

lemma accepted_ok:
  "f \<in> set (fst (setFiles opts files)) \<Longrightarrow>
   f \<in> set files \<and> fileAccepted f (acceptPropAsAcceptAttr (accept opts)) \<and>
   fileMatchSize f (maxSize opts)"
  by (auto simp: setFiles_def Let_def split: if_splits)

lemma rejected_not_ok:
  "f \<in> set files \<Longrightarrow>
   \<not> (fileAccepted f (acceptPropAsAcceptAttr (accept opts)) \<and> fileMatchSize f (maxSize opts)) \<Longrightarrow>
   f \<in> set (snd (setFiles opts files))"
  by (auto simp: setFiles_def Let_def split: if_splits)

lemma calls_accepted:
  "g \<in> set (UploadZone_drop tbl evt) \<Longrightarrow>
   g \<in> set (fst (setFiles UploadZone_options (fromEvent tbl evt)))"
  using set_onDrop unfolding UploadZone_drop_def by blast

text \<open>
  C5 (as amended). The upload zone accepts the two formats CSV (MIME type text/csv,
  extension .csv) and PDF (MIME type application/pdf, extension .pdf), by the type the file
  has when the file selector has read it or by the extension of its name, and besides them
  only a file whose type is \<^verbatim>\<open>application/x-moz-file\<close>. Every other file of a drop or a
  selection is among the rejections and \<^verbatim>\<open>onFileSelect\<close> is not called with it;
  \<^verbatim>\<open>onFileSelect\<close> is called only with a file of the event that is of an accepted kind; and
  a single file of an accepted kind, of at most 10 MiB, is passed to \<^verbatim>\<open>onFileSelect\<close>.
\<close>

theorem upload_zone_formats:
  "acceptPropAsAcceptAttr (accept UploadZone_options) =
     [''text/csv'', ''.csv'', ''application/pdf'', ''.pdf''] \<and>
   (f \<in> set (fromEvent tbl evt) \<and>
    file_type f \<noteq> ''application/x-moz-file'' \<and>
    \<not> (toLowerCase (file_type f) = ''text/csv'' \<or>
       endsWith (toLowerCase (file_name f)) ''.csv'' \<or>
       toLowerCase (file_type f) = ''application/pdf'' \<or>
       endsWith (toLowerCase (file_name f)) ''.pdf'')
    \<longrightarrow> f \<in> set (snd (setFiles UploadZone_options (fromEvent tbl evt))) \<and>
        f \<notin> set (UploadZone_drop tbl evt)) \<and>
   (g \<in> set (UploadZone_drop tbl evt)
    \<longrightarrow> g \<in> set (fromEvent tbl evt) \<and>
        (file_type g = ''application/x-moz-file'' \<or>
         toLowerCase (file_type g) = ''text/csv'' \<or>
         endsWith (toLowerCase (file_name g)) ''.csv'' \<or>
         toLowerCase (file_type g) = ''application/pdf'' \<or>
         endsWith (toLowerCase (file_name g)) ''.pdf'')) \<and>
   (fromEvent tbl evt = [f] \<and>
    (file_type f = ''application/x-moz-file'' \<or>
     toLowerCase (file_type f) = ''text/csv'' \<or>
     endsWith (toLowerCase (file_name f)) ''.csv'' \<or>
     toLowerCase (file_type f) = ''application/pdf'' \<or>
     endsWith (toLowerCase (file_name f)) ''.pdf'') \<and>
    file_size f \<le> 10 * 1024 * 1024
    \<longrightarrow> UploadZone_drop tbl evt = [f])"
proof (intro conjI impI)
  show "acceptPropAsAcceptAttr (accept UploadZone_options) =
     [''text/csv'', ''.csv'', ''application/pdf'', ''.pdf'']"
    by (simp add: acceptPropAsAcceptAttr_def UploadZone_options_def)
next
  assume a: "f \<in> set (fromEvent tbl evt) \<and>
    file_type f \<noteq> ''application/x-moz-file'' \<and>
    \<not> (toLowerCase (file_type f) = ''text/csv'' \<or>
       endsWith (toLowerCase (file_name f)) ''.csv'' \<or>
       toLowerCase (file_type f) = ''application/pdf'' \<or>
       endsWith (toLowerCase (file_name f)) ''.pdf'')"
  then have na: "\<not> fileAccepted f (acceptPropAsAcceptAttr (accept UploadZone_options))"
    by (simp add: fileAccepted_def accepts_UploadZone)
  with a show "f \<in> set (snd (setFiles UploadZone_options (fromEvent tbl evt)))"
    by (simp add: rejected_not_ok)
  show "f \<notin> set (UploadZone_drop tbl evt)"
  proof
    assume "f \<in> set (UploadZone_drop tbl evt)"
    from accepted_ok [OF calls_accepted [OF this]] na show False by simp
  qed
next
  assume "g \<in> set (UploadZone_drop tbl evt)"
  note ok = accepted_ok [OF calls_accepted [OF this]]
  from ok show "g \<in> set (fromEvent tbl evt)" by simp
  from ok show "file_type g = ''application/x-moz-file'' \<or>
         toLowerCase (file_type g) = ''text/csv'' \<or>
         endsWith (toLowerCase (file_name g)) ''.csv'' \<or>
         toLowerCase (file_type g) = ''application/pdf'' \<or>
         endsWith (toLowerCase (file_name g)) ''.pdf''"
    by (simp add: fileAccepted_def accepts_UploadZone)
next
  assume a: "fromEvent tbl evt = [f] \<and>
    (file_type f = ''application/x-moz-file'' \<or>
     toLowerCase (file_type f) = ''text/csv'' \<or>
     endsWith (toLowerCase (file_name f)) ''.csv'' \<or>
     toLowerCase (file_type f) = ''application/pdf'' \<or>
     endsWith (toLowerCase (file_name f)) ''.pdf'') \<and>
    file_size f \<le> 10 * 1024 * 1024"
  then have "fileAccepted f (acceptPropAsAcceptAttr (accept UploadZone_options))"
    by (auto simp: fileAccepted_def accepts_UploadZone)
  moreover from a have "fileMatchSize f (maxSize UploadZone_options)"
    by (simp add: fileMatchSize_def UploadZone_options_def)
  ultimately show "UploadZone_drop tbl evt = [f]"
    using a by (simp add: UploadZone_drop_def setFiles_def Let_def onDrop_def)
qed

text \<open>
  C9. The upload zone takes at most one file per drop or selection (\<^verbatim>\<open>multiple\<close> is off
  and \<^verbatim>\<open>onDrop\<close> passes on the first accepted file only), and its size limit is
  10 * 1024 * 1024 bytes: a file strictly larger is among the rejections and
  \<^verbatim>\<open>onFileSelect\<close> is not called with it, so that every file \<^verbatim>\<open>onFileSelect\<close> is called
  with is within the limit.
\<close>

theorem upload_zone_limits:
  "maxSize UploadZone_options = 10485760 \<and> \<not> multiple UploadZone_options \<and>
   length (UploadZone_drop tbl evt) \<le> 1 \<and>
   (f \<in> set (fromEvent tbl evt) \<and> file_size f > 10 * 1024 * 1024 \<longrightarrow>
      f \<in> set (snd (setFiles UploadZone_options (fromEvent tbl evt))) \<and>
      f \<notin> set (UploadZone_drop tbl evt)) \<and>
   (g \<in> set (UploadZone_drop tbl evt) \<longrightarrow> file_size g \<le> 10 * 1024 * 1024)"
proof -
  have small: "file_size g \<le> 10 * 1024 * 1024" if "g \<in> set (UploadZone_drop tbl evt)" for g
    using accepted_ok [OF calls_accepted [OF that]]
    by (simp add: fileMatchSize_def UploadZone_options_def)
  show ?thesis
  proof (intro conjI impI)
    show "maxSize UploadZone_options = 10485760" by (simp add: UploadZone_options_def)
    show "\<not> multiple UploadZone_options" by (simp add: UploadZone_options_def)
    show "length (UploadZone_drop tbl evt) \<le> 1"
      unfolding UploadZone_drop_def by (rule length_onDrop)
  next
    assume a: "f \<in> set (fromEvent tbl evt) \<and> file_size f > 10 * 1024 * 1024"
    then have "\<not> fileMatchSize f (maxSize UploadZone_options)"
      by (simp add: fileMatchSize_def UploadZone_options_def)
    with a show "f \<in> set (snd (setFiles UploadZone_options (fromEvent tbl evt)))"
      by (simp add: rejected_not_ok)
    show "f \<notin> set (UploadZone_drop tbl evt)"
      using small [of f] a by auto
  next
    assume "g \<in> set (UploadZone_drop tbl evt)"
    then show "file_size g \<le> 10 * 1024 * 1024" by (rule small)
  qed
qed

theorem upload_zone_formats_witness:
  "fromEvent
      (map_of [(''csv'', ''text/csv''), (''pdf'', ''application/pdf''), (''jpg'', ''image/jpeg'')])
      (DropEvent [\<lparr>file_name = ''Thumbs.db'', file_type = [], file_size = 4096\<rparr>,
                  \<lparr>file_name = ''foto.jpg'', file_type = [], file_size = 2048\<rparr>,
                  \<lparr>file_name = ''estratto.csv'', file_type = ''text/csv'', file_size = 512\<rparr>])
     = [\<lparr>file_name = ''foto.jpg'', file_type = ''image/jpeg'', file_size = 2048\<rparr>,
        \<lparr>file_name = ''estratto.csv'', file_type = ''text/csv'', file_size = 512\<rparr>] \<and>
   \<lparr>file_name = ''foto.jpg'', file_type = ''image/jpeg'', file_size = 2048\<rparr>
     \<notin> set (UploadZone_drop
              (map_of [(''csv'', ''text/csv''), (''pdf'', ''application/pdf''),
                       (''jpg'', ''image/jpeg'')])
              (DropEvent [\<lparr>file_name = ''Thumbs.db'', file_type = [], file_size = 4096\<rparr>,
                          \<lparr>file_name = ''foto.jpg'', file_type = [], file_size = 2048\<rparr>,
                          \<lparr>file_name = ''estratto.csv'', file_type = ''text/csv'',
                            file_size = 512\<rparr>])) \<and>
   fromEvent
      (map_of [(''csv'', ''text/csv''), (''pdf'', ''application/pdf''), (''jpg'', ''image/jpeg'')])
      (ChangeEvent [\<lparr>file_name = ''Estratto.PDF'', file_type = [], file_size = 512\<rparr>])
     = [\<lparr>file_name = ''Estratto.PDF'', file_type = ''application/pdf'', file_size = 512\<rparr>] \<and>
   UploadZone_drop
      (map_of [(''csv'', ''text/csv''), (''pdf'', ''application/pdf''), (''jpg'', ''image/jpeg'')])
      (ChangeEvent [\<lparr>file_name = ''Estratto.PDF'', file_type = [], file_size = 512\<rparr>])
     = [\<lparr>file_name = ''Estratto.PDF'', file_type = ''application/pdf'', file_size = 512\<rparr>]"
proof -
  let ?tbl = "map_of [(''csv'', ''text/csv''), (''pdf'', ''application/pdf''),
                      (''jpg'', ''image/jpeg'')]"
  let ?thumbs = "\<lparr>file_name = ''Thumbs.db'', file_type = [], file_size = 4096\<rparr>"
  let ?rawjpg = "\<lparr>file_name = ''foto.jpg'', file_type = [], file_size = 2048\<rparr>"
  let ?jpg = "\<lparr>file_name = ''foto.jpg'', file_type = ''image/jpeg'', file_size = 2048\<rparr>"
  let ?csv = "\<lparr>file_name = ''estratto.csv'', file_type = ''text/csv'', file_size = 512\<rparr>"
  let ?pdf = "\<lparr>file_name = ''Estratto.PDF'', file_type = [], file_size = 512\<rparr>"
  let ?pdf' = "\<lparr>file_name = ''Estratto.PDF'', file_type = ''application/pdf'', file_size = 512\<rparr>"
  let ?drop = "DropEvent [?thumbs, ?rawjpg, ?csv]"
  let ?change = "ChangeEvent [?pdf]"
  have wt: "withMimeType ?tbl ?thumbs = ?thumbs"
    by (simp add: withMimeType_def Let_def toLowerCase_char_def)
  have wj: "withMimeType ?tbl ?rawjpg = ?jpg"
    by (simp add: withMimeType_def Let_def toLowerCase_char_def)
  have wc: "withMimeType ?tbl ?csv = ?csv"
    by (simp add: withMimeType_def)
  have wp: "withMimeType ?tbl ?pdf = ?pdf'"
    by (simp add: withMimeType_def Let_def toLowerCase_char_def)
  have fd: "fromEvent ?tbl ?drop = [?jpg, ?csv]"
    by (simp only: fromEvent_def FileEvent.case list.map wt wj wc)
      (simp add: FILES_TO_IGNORE_def)
  have fc: "fromEvent ?tbl ?change = [?pdf']"
    by (simp only: fromEvent_def FileEvent.case list.map wp)
  have k1: "file_type ?jpg \<noteq> ''application/x-moz-file'' \<and>
    \<not> (toLowerCase (file_type ?jpg) = ''text/csv'' \<or>
       endsWith (toLowerCase (file_name ?jpg)) ''.csv'' \<or>
       toLowerCase (file_type ?jpg) = ''application/pdf'' \<or>
       endsWith (toLowerCase (file_name ?jpg)) ''.pdf'')"
    by code_simp
  have m1: "?jpg \<in> set (fromEvent ?tbl ?drop)"
    unfolding fd by simp
  note h1 = conjI [OF m1 k1]
  have k2: "file_type ?pdf' = ''application/x-moz-file'' \<or>
     toLowerCase (file_type ?pdf') = ''text/csv'' \<or>
     endsWith (toLowerCase (file_name ?pdf')) ''.csv'' \<or>
     toLowerCase (file_type ?pdf') = ''application/pdf'' \<or>
     endsWith (toLowerCase (file_name ?pdf')) ''.pdf''"
    by code_simp
  have s2: "file_size ?pdf' \<le> 10 * 1024 * 1024"
    by simp
  note h2 = conjI [OF fc conjI [OF k2 s2]]
  note r1 = upload_zone_formats [of ?jpg ?tbl ?drop, THEN conjunct2, THEN conjunct1,
      THEN mp, OF h1]
  note r2 = upload_zone_formats [of ?pdf' ?tbl ?change, THEN conjunct2, THEN conjunct2,
      THEN conjunct2, THEN mp, OF h2]
  show ?thesis
    using fd r1 [THEN conjunct2] fc r2 by (intro conjI)
qed

text \<open>
  The claim as first stated, that every file of another type than CSV and PDF is rejected,
  fails for a file whose type is reported as \<^verbatim>\<open>application/x-moz-file\<close>: whatever its name,
  it passes the type test and \<^verbatim>\<open>onFileSelect\<close> is called with it.
\<close>

theorem upload_zone_formats_counterexample:
  "UploadZone_drop Map.empty
      (DropEvent [\<lparr>file_name = ''programma.exe'', file_type = ''application/x-moz-file'',
                   file_size = 1024\<rparr>])
     = [\<lparr>file_name = ''programma.exe'', file_type = ''application/x-moz-file'', file_size = 1024\<rparr>] \<and>
   toLowerCase ''application/x-moz-file'' \<noteq> ''text/csv'' \<and>
   toLowerCase ''application/x-moz-file'' \<noteq> ''application/pdf'' \<and>
   \<not> endsWith (toLowerCase ''programma.exe'') ''.csv'' \<and>
   \<not> endsWith (toLowerCase ''programma.exe'') ''.pdf''"
proof -
  let ?exe = "\<lparr>file_name = ''programma.exe'', file_type = ''application/x-moz-file'',
                file_size = 1024\<rparr>"
  have w: "withMimeType Map.empty ?exe = ?exe"
    by (simp add: withMimeType_def)
  have fe: "fromEvent Map.empty (DropEvent [?exe]) = [?exe]"
    by (simp only: fromEvent_def FileEvent.case list.map w) (simp add: FILES_TO_IGNORE_def)
  have "UploadZone_drop Map.empty (DropEvent [?exe]) = [?exe]"
    by (simp add: UploadZone_drop_def fe setFiles_def Let_def onDrop_def fileAccepted_def
        fileMatchSize_def UploadZone_options_def)
  moreover have "toLowerCase ''application/x-moz-file'' \<noteq> ''text/csv'' \<and>
   toLowerCase ''application/x-moz-file'' \<noteq> ''application/pdf'' \<and>
   \<not> endsWith (toLowerCase ''programma.exe'') ''.csv'' \<and>
   \<not> endsWith (toLowerCase ''programma.exe'') ''.pdf''"
    by code_simp
  ultimately show ?thesis by (intro conjI) simp_all
qed

theorem upload_zone_limits_witness:
  "\<lparr>file_name = ''grande.csv'', file_type = ''text/csv'', file_size = 10485761\<rparr>
     \<in> set (fromEvent (map_of [(''csv'', ''text/csv'')])
         (ChangeEvent [\<lparr>file_name = ''grande.csv'', file_type = [], file_size = 10485761\<rparr>])) \<and>
   file_size \<lparr>file_name = ''grande.csv'', file_type = ''text/csv'', file_size = 10485761\<rparr>
     > 10 * 1024 * 1024 \<and>
   \<lparr>file_name = ''grande.csv'', file_type = ''text/csv'', file_size = 10485761\<rparr>
     \<notin> set (UploadZone_drop (map_of [(''csv'', ''text/csv'')])
         (ChangeEvent [\<lparr>file_name = ''grande.csv'', file_type = [], file_size = 10485761\<rparr>])) \<and>
   \<lparr>file_name = ''limite.csv'', file_type = ''text/csv'', file_size = 10485760\<rparr>
     \<in> set (UploadZone_drop (map_of [(''csv'', ''text/csv'')])
         (ChangeEvent [\<lparr>file_name = ''limite.csv'', file_type = ''text/csv'',
                        file_size = 10485760\<rparr>])) \<and>
   file_size \<lparr>file_name = ''limite.csv'', file_type = ''text/csv'', file_size = 10485760\<rparr>
     \<le> 10 * 1024 * 1024"
proof -
  let ?tbl = "map_of [(''csv'', ''text/csv'')]"
  let ?rawbig = "\<lparr>file_name = ''grande.csv'', file_type = [], file_size = 10485761\<rparr>"
  let ?big = "\<lparr>file_name = ''grande.csv'', file_type = ''text/csv'', file_size = 10485761\<rparr>"
  let ?lim = "\<lparr>file_name = ''limite.csv'', file_type = ''text/csv'', file_size = 10485760\<rparr>"
  have wb: "withMimeType ?tbl ?rawbig = ?big"
    by (simp add: withMimeType_def Let_def toLowerCase_char_def)
  have wl: "withMimeType ?tbl ?lim = ?lim"
    by (simp add: withMimeType_def)
  have fb: "fromEvent ?tbl (ChangeEvent [?rawbig]) = [?big]"
    by (simp only: fromEvent_def FileEvent.case list.map wb)
  have fl: "fromEvent ?tbl (ChangeEvent [?lim]) = [?lim]"
    by (simp only: fromEvent_def FileEvent.case list.map wl)
  have m: "?big \<in> set (fromEvent ?tbl (ChangeEvent [?rawbig]))"
    unfolding fb by simp
  have s: "file_size ?big > 10 * 1024 * 1024"
    by simp
  note h = conjI [OF m s]
  note r = upload_zone_limits [of ?tbl "ChangeEvent [?rawbig]" ?big,
      THEN conjunct2, THEN conjunct2, THEN conjunct2, THEN conjunct1, THEN mp, OF h]
  have lc: "toLowerCase ''text/csv'' = ''text/csv''"
    by code_simp
  have kl: "fileAccepted ?lim (acceptPropAsAcceptAttr (accept UploadZone_options))"
    by (simp only: fileAccepted_def accepts_UploadZone File.simps lc) simp
  have sl: "fileMatchSize ?lim (maxSize UploadZone_options)"
    by (simp add: fileMatchSize_def UploadZone_options_def)
  have nm: "\<not> multiple UploadZone_options"
    by (simp add: UploadZone_options_def)
  have dl: "UploadZone_drop ?tbl (ChangeEvent [?lim]) = [?lim]"
    unfolding UploadZone_drop_def fl
    using kl sl nm by (simp add: setFiles_def Let_def onDrop_def)
  have ml: "?lim \<in> set (UploadZone_drop ?tbl (ChangeEvent [?lim]))"
    unfolding dl by simp
  note r2 = upload_zone_limits [of ?tbl "ChangeEvent [?lim]" _ ?lim,
      THEN conjunct2, THEN conjunct2, THEN conjunct2, THEN conjunct2, THEN mp, OF ml]
  show ?thesis
    using m s r [THEN conjunct2] ml r2 by (intro conjI)
qed

subsection \<open>Preview table\<close>










text \<open>
  C10. Every confidence value falls in exactly one of three bands: from 0.7 upwards it is
  rendered green with the high-confidence label, from 0.4 up to (not including) 0.7 amber
  with the medium label, below 0.4 red with the low label. The three colours are distinct,
  and the fallback confidence 0.0 is red.
\<close>

theorem confidence_bands:
  "(c \<ge> 0.7 \<longrightarrow>
      confidenceColor c = ''bg-emerald-500'' \<and> confidenceLabel c t = t ''highConfidence'') \<and>
   (0.4 \<le> c \<and> c < 0.7 \<longrightarrow>
      confidenceColor c = ''bg-amber-400'' \<and> confidenceLabel c t = t ''mediumConfidence'') \<and>
   (c < 0.4 \<longrightarrow>
      confidenceColor c = ''bg-rose-500'' \<and> confidenceLabel c t = t ''lowConfidence'') \<and>
   ''bg-emerald-500'' \<noteq> ''bg-amber-400'' \<and> ''bg-amber-400'' \<noteq> ''bg-rose-500'' \<and>
   ''bg-emerald-500'' \<noteq> ''bg-rose-500'' \<and>
   confidenceColor 0 = ''bg-rose-500''"
  by (simp add: confidenceColor_def confidenceLabel_def)

theorem confidence_bands_witness:
  "(0.7::real) \<ge> 0.7 \<and> confidenceColor 0.7 = ''bg-emerald-500'' \<and>
   (0.4::real) \<le> 0.4 \<and> (0.4::real) < 0.7 \<and> confidenceColor 0.4 = ''bg-amber-400'' \<and>
   (0.39::real) < 0.4 \<and> confidenceColor 0.39 = ''bg-rose-500'' \<and>
   confidenceLabel 0.39 id = ''lowConfidence''"
  using confidence_bands [of "0.7" id] confidence_bands [of "0.4" id]
    confidence_bands [of "0.39" id]
  by simp

subsection \<open>The import core\<close>

subsubsection \<open>Parsing\<close>

lemma parse_rows_counts:
  "row_count (parse_rows f i rows res) = row_count res + length rows \<and>
   parsed_count (parse_rows f i rows res) =
     parsed_count res + length (filter (\<lambda>r. isParsed (f r)) rows) \<and>
   length (transactions (parse_rows f i rows res)) =
     length (transactions res) + length (filter (\<lambda>r. isParsed (f r)) rows) \<and>
   length (errors (parse_rows f i rows res)) =
     length (errors res) + length (filter (\<lambda>r. isMalformed (f r)) rows)"
proof (induction rows arbitrary: i res)
  case Nil
  then show ?case by simp
next
  case (Cons row rows)
  show ?case
    by (cases "f row") (simp_all add: Cons.IH)
qed

text \<open>
  C3. Partial-failure containment: whatever the row conversion is, a file with a header and
  N data rows of which exactly one is malformed and the N-1 others are valid is parsed
  without a failure, with \<open>parsed_count = N - 1\<close> and exactly one entry in \<open>errors\<close>;
  and in every result of \<open>parse\<close>, \<open>parsed_count\<close> is the length of \<open>transactions\<close>.
\<close>

theorem partial_failure_containment:
  assumes "length (filter (\<lambda>r. isMalformed (parseRow r)) rows) = 1"
    and "length (filter (\<lambda>r. isParsed (parseRow r)) rows) = length rows - 1"
  shows "(\<exists>res. parse src parseRow (header # rows) = Inr res \<and>
            parsed_count res = length rows - 1 \<and> length (errors res) = 1 \<and>
            row_count res = length rows) \<and>
         (\<forall>lines res. parse src parseRow lines = Inr res \<longrightarrow>
            parsed_count res = length (transactions res))"
proof
  show "\<exists>res. parse src parseRow (header # rows) = Inr res \<and>
            parsed_count res = length rows - 1 \<and> length (errors res) = 1 \<and>
            row_count res = length rows"
    using assms by (simp add: parse_def parse_rows_counts)
  show "\<forall>lines res. parse src parseRow lines = Inr res \<longrightarrow>
            parsed_count res = length (transactions res)"
    by (auto simp: parse_def parse_rows_counts split: list.splits)
qed

subsubsection \<open>Categorization\<close>

lemma find_None_iff': "(find P xs = None) = (\<forall>x \<in> set xs. \<not> P x)"
  by (induction xs) auto

lemma find_Some_set: "find P xs = Some x \<Longrightarrow> x \<in> set xs \<and> P x"
  by (induction xs) (auto split: if_splits)

lemma user_tier_None:
  "(user_tier eng tx rules = None) =
   (\<forall>r \<in> set rules. r_scope r = User \<longrightarrow> \<not> rule_matches eng r (raw_description tx))"
proof -
  have "(user_tier eng tx rules = None) =
        (find (\<lambda>r. rule_matches eng r (raw_description tx))
           (sort_key (\<lambda>r. - r_priority r) (filter (\<lambda>r. r_scope r = User) rules)) = None)"
    by (simp add: user_tier_def split: option.splits)
  also have "\<dots> = (\<forall>r \<in> set (sort_key (\<lambda>r. - r_priority r) (filter (\<lambda>r. r_scope r = User) rules)).
        \<not> rule_matches eng r (raw_description tx))"
    by (rule find_None_iff')
  also have "\<dots> = (\<forall>r \<in> set rules. r_scope r = User \<longrightarrow>
        \<not> rule_matches eng r (raw_description tx))"
    by auto
  finally show ?thesis .
qed

lemma user_tier_Some:
  "user_tier eng tx rules = Some a \<Longrightarrow>
   ca_matched_by a = UserRule \<and> ca_confidence a = 1 \<and>
   (\<exists>r \<in> set rules. r_scope r = User \<and> rule_matches eng r (raw_description tx) \<and>
       ca_category_id a = r_category_id r)"
  by (auto simp: user_tier_def split: option.splits dest!: find_Some_set)

lemma keyword_tier_None:
  "(keyword_tier eng tx = None) =
   (\<forall>(k, c) \<in> set (keyword_dict eng).
       \<not> includes_str (normalize_accents eng (lower (raw_description tx))) k)"
proof -
  have "(keyword_tier eng tx = None) =
        (find (\<lambda>(k, c). includes_str (normalize_accents eng (lower (raw_description tx))) k)
           (keyword_dict eng) = None)"
    by (simp add: keyword_tier_def Let_def split: option.splits prod.splits)
  also have "\<dots> = (\<forall>x \<in> set (keyword_dict eng).
        \<not> (case x of (k, c) \<Rightarrow>
             includes_str (normalize_accents eng (lower (raw_description tx))) k))"
    by (rule find_None_iff')
  also have "\<dots> = (\<forall>(k, c) \<in> set (keyword_dict eng).
       \<not> includes_str (normalize_accents eng (lower (raw_description tx))) k)"
    by (simp add: case_prod_beta)
  finally show ?thesis .
qed

lemma pattern_tier_None:
  "(pattern_tier eng tx = None) =
   (\<forall>(p, c) \<in> set (pattern_dict eng).
       regex_search eng p (raw_original_description tx) \<noteq> Some True)"
proof -
  have "(pattern_tier eng tx = None) =
        (find (\<lambda>(p, c). regex_search eng p (raw_original_description tx) = Some True)
           (pattern_dict eng) = None)"
    by (simp add: pattern_tier_def Let_def split: option.splits prod.splits)
  also have "\<dots> = (\<forall>x \<in> set (pattern_dict eng).
        \<not> (case x of (p, c) \<Rightarrow> regex_search eng p (raw_original_description tx) = Some True))"
    by (rule find_None_iff')
  also have "\<dots> = (\<forall>(p, c) \<in> set (pattern_dict eng).
       regex_search eng p (raw_original_description tx) \<noteq> Some True)"
    by (simp add: case_prod_beta)
  finally show ?thesis .
qed

lemma into_range_bounds:
  assumes "lo \<le> hi"
  shows "into_range lo hi x \<in> {lo .. hi}"
  using assms by (simp add: into_range_def)

lemma keyword_tier_Some:
  "keyword_tier eng tx = Some a \<Longrightarrow>
   ca_matched_by a = Keyword \<and> 0.5 \<le> ca_confidence a \<and> ca_confidence a \<le> 0.9"
  using into_range_bounds [of "0.5" "0.9"]
  by (auto simp: keyword_tier_def Let_def split: option.splits)

lemma pattern_tier_Some:
  "pattern_tier eng tx = Some a \<Longrightarrow>
   ca_matched_by a = Pattern \<and> 0.4 \<le> ca_confidence a \<and> ca_confidence a \<le> 0.7"
  using into_range_bounds [of "0.4" "0.7"]
  by (auto simp: pattern_tier_def Let_def split: option.splits)

lemma categorize_confidence_range:
  "0 \<le> ca_confidence (categorize eng tx rules) \<and> ca_confidence (categorize eng tx rules) \<le> 1"
proof (cases "user_tier eng tx rules")
  case (Some a)
  with user_tier_Some [OF Some] show ?thesis by (simp add: categorize_def)
next
  case None
  note u = None
  show ?thesis
  proof (cases "keyword_tier eng tx")
    case (Some a)
    with keyword_tier_Some [OF Some] u show ?thesis by (simp add: categorize_def)
  next
    case None
    note k = None
    show ?thesis
    proof (cases "pattern_tier eng tx")
      case (Some a)
      with pattern_tier_Some [OF Some] u k show ?thesis by (simp add: categorize_def)
    next
      case None
      with u k show ?thesis by (simp add: categorize_def)
    qed
  qed
qed

text \<open>
  C1. Categorization totality: \<open>categorize\<close> returns one assignment for every transaction
  and every list of rules, the empty list included, with a confidence between 0 and 1 (a
  regular expression that raises is skipped, so nothing is raised); and when no user rule
  matches the description, no keyword occurs in it and no pattern matches the original
  description, the assignment is the fallback, with confidence 0.
\<close>

theorem categorize_total_fallback:
  assumes "\<forall>r \<in> set rules. r_scope r = User \<longrightarrow> \<not> rule_matches eng r (raw_description tx)"
    and "\<forall>(k, c) \<in> set (keyword_dict eng).
           \<not> includes_str (normalize_accents eng (lower (raw_description tx))) k"
    and "\<forall>(p, c) \<in> set (pattern_dict eng).
           regex_search eng p (raw_original_description tx) \<noteq> Some True"
  shows "ca_matched_by (categorize eng tx rules) = Fallback \<and>
         ca_confidence (categorize eng tx rules) = 0 \<and>
         0 \<le> ca_confidence (categorize eng tx' rules') \<and>
         ca_confidence (categorize eng tx' rules') \<le> 1 \<and>
         ca_matched_by (categorize eng tx' rules') \<in> {UserRule, Keyword, Pattern, Fallback}"
proof -
  have "user_tier eng tx rules = None" using assms(1) by (simp add: user_tier_None)
  moreover have "keyword_tier eng tx = None" using assms(2) by (simp add: keyword_tier_None)
  moreover have "pattern_tier eng tx = None" using assms(3) by (simp add: pattern_tier_None)
  ultimately have "ca_matched_by (categorize eng tx rules) = Fallback \<and>
         ca_confidence (categorize eng tx rules) = 0"
    by (simp add: categorize_def)
  moreover have "ca_matched_by (categorize eng tx' rules') \<in> {UserRule, Keyword, Pattern, Fallback}"
    by (cases "ca_matched_by (categorize eng tx' rules')") simp_all
  ultimately show ?thesis
    using categorize_confidence_range [of eng tx' rules'] by simp
qed

lemma find_first_sorted:
  assumes "sorted (map f xs)" and "find P xs = Some w" and "x \<in> set xs" and "P x"
  shows "f w \<le> f x"
  using assms by (induction xs) (auto split: if_splits)

lemma user_tier_winner:
  assumes "user_tier eng tx rules = Some a"
  shows "\<exists>w \<in> set rules. r_scope w = User \<and> rule_matches eng w (raw_description tx) \<and>
           ca_category_id a = r_category_id w \<and>
           (\<forall>r' \<in> set rules. r_scope r' = User \<and> rule_matches eng r' (raw_description tx) \<longrightarrow>
               r_priority r' \<le> r_priority w)"
proof -
  let ?us = "sort_key (\<lambda>r. - r_priority r) (filter (\<lambda>r. r_scope r = User) rules)"
  let ?P = "\<lambda>r. rule_matches eng r (raw_description tx)"
  from assms obtain w where w: "find ?P ?us = Some w" and a: "ca_category_id a = r_category_id w"
    by (auto simp: user_tier_def split: option.splits)
  from find_Some_set [OF w] have win: "w \<in> set rules" "r_scope w = User" "?P w"
    by auto
  have srt: "sorted (map (\<lambda>r. - r_priority r) ?us)"
    by (rule sorted_sort_key)
  have "r_priority r' \<le> r_priority w"
    if "r' \<in> set rules" "r_scope r' = User" "?P r'" for r'
  proof -
    from that have "r' \<in> set ?us" by simp
    from find_first_sorted [OF srt w this that(3)] show ?thesis by simp
  qed
  with win a show ?thesis by blast
qed

text \<open>
  C2. User-rule precedence: when the description of a transaction matches a user-owned rule
  and also contains a keyword of the system dictionary (so that the keyword tier alone
  would assign a category), \<open>categorize\<close> answers from the user-rule tier:
  \<open>matched_by = user_rule\<close>, confidence 1.0, and the category is that of a matching user
  rule of the highest priority among the matching ones.
\<close>

theorem user_rule_precedence:
  assumes "r \<in> set rules" and "r_scope r = User"
    and "rule_matches eng r (raw_description tx)"
    and "(k, c) \<in> set (keyword_dict eng)"
    and "includes_str (normalize_accents eng (lower (raw_description tx))) k"
  shows "ca_matched_by (categorize eng tx rules) = UserRule \<and>
         ca_confidence (categorize eng tx rules) = 1 \<and>
         keyword_tier eng tx \<noteq> None \<and>
         (\<exists>w \<in> set rules. r_scope w = User \<and> rule_matches eng w (raw_description tx) \<and>
            ca_category_id (categorize eng tx rules) = r_category_id w \<and>
            (\<forall>r' \<in> set rules.
                r_scope r' = User \<and> rule_matches eng r' (raw_description tx) \<longrightarrow>
                r_priority r' \<le> r_priority w))"
proof -
  have "user_tier eng tx rules \<noteq> None"
    using assms(1-3) by (auto simp: user_tier_None)
  then obtain a where a: "user_tier eng tx rules = Some a" by auto
  then have cat: "categorize eng tx rules = a" by (simp add: categorize_def)
  have kw: "keyword_tier eng tx \<noteq> None"
    using assms(4,5) by (auto simp: keyword_tier_None)
  from user_tier_Some [OF a] have "ca_matched_by a = UserRule" "ca_confidence a = 1"
    by simp_all
  with user_tier_winner [OF a] kw show ?thesis unfolding cat by (intro conjI)
qed

subsubsection \<open>The theorems at concrete inputs\<close>

lemmas bank_row_eval =
  bankCsvRow_def field_def parseLocalizedDate_def parse_dmy_def parse_ymd_def
  calendar_day_def numeric_def isDigit_def digits_val_def days_in_month_def strip_def
  isBlank_def parseLocalizedAmount_def isCurrencySymbol_def u_def Let_def

theorem partial_failure_containment_witness:
  "bankCsvRow 59 (u ''25/02/2025;-89,50;ADDEBITO SDD ENEL ENERGIA'') =
     Parsed \<lparr>raw_date = (2025, 2, 25), raw_amount = - 89.5, raw_currency = u ''EUR'',
             raw_description = u ''ADDEBITO SDD ENEL ENERGIA'',
             raw_original_description = u ''ADDEBITO SDD ENEL ENERGIA'',
             raw_type = Expense, raw_metadata = []\<rparr> \<and>
   bankCsvRow 59 (u ''31/02/2025;10,00;DATA SBAGLIATA'') = Malformed DateFormatError \<and>
   isParsed (bankCsvRow 59 (u ''27/02/2025;2.850,00;BONIFICO STIPENDIO MARZO'')) \<and>
   (\<exists>res. parse Bank_csv (bankCsvRow 59)
            [u ''Data;Importo;Descrizione'',
             u ''25/02/2025;-89,50;ADDEBITO SDD ENEL ENERGIA'',
             u ''31/02/2025;10,00;DATA SBAGLIATA'',
             u ''27/02/2025;2.850,00;BONIFICO STIPENDIO MARZO''] = Inr res \<and>
          parsed_count res = 2 \<and> length (errors res) = 1 \<and> length (transactions res) = 2)"
proof -
  let ?r1 = "u ''25/02/2025;-89,50;ADDEBITO SDD ENEL ENERGIA''"
  let ?r2 = "u ''31/02/2025;10,00;DATA SBAGLIATA''"
  let ?r3 = "u ''27/02/2025;2.850,00;BONIFICO STIPENDIO MARZO''"
  have e1: "bankCsvRow 59 ?r1 =
     Parsed \<lparr>raw_date = (2025, 2, 25), raw_amount = - 89.5, raw_currency = u ''EUR'',
             raw_description = u ''ADDEBITO SDD ENEL ENERGIA'',
             raw_original_description = u ''ADDEBITO SDD ENEL ENERGIA'',
             raw_type = Expense, raw_metadata = []\<rparr>"
    by (simp add: bank_row_eval)
  have e2: "bankCsvRow 59 ?r2 = Malformed DateFormatError"
    by (simp add: bank_row_eval)
  have e3: "isParsed (bankCsvRow 59 ?r3)"
    by (simp add: bank_row_eval)
  have h1: "length (filter (\<lambda>r. isMalformed (bankCsvRow 59 r)) [?r1, ?r2, ?r3]) = 1"
    using e3 by (cases "bankCsvRow 59 ?r3") (simp_all add: e1 e2)
  have h2: "length (filter (\<lambda>r. isParsed (bankCsvRow 59 r)) [?r1, ?r2, ?r3]) =
            length [?r1, ?r2, ?r3] - 1"
    using e3 by (simp add: e1 e2)
  note inst = partial_failure_containment [OF h1 h2, of Bank_csv "u ''Data;Importo;Descrizione''"]
  from inst [THEN conjunct1] obtain res where
    res: "parse Bank_csv (bankCsvRow 59) [u ''Data;Importo;Descrizione'', ?r1, ?r2, ?r3] = Inr res"
      "parsed_count res = length [?r1, ?r2, ?r3] - 1" "length (errors res) = 1"
    by blast
  from inst [THEN conjunct2] res(1) have "parsed_count res = length (transactions res)"
    by blast
  with res have "parse Bank_csv (bankCsvRow 59) [u ''Data;Importo;Descrizione'', ?r1, ?r2, ?r3] = Inr res \<and>
          parsed_count res = 2 \<and> length (errors res) = 1 \<and> length (transactions res) = 2"
    by simp
  then have "\<exists>res. parse Bank_csv (bankCsvRow 59) [u ''Data;Importo;Descrizione'', ?r1, ?r2, ?r3] = Inr res \<and>
          parsed_count res = 2 \<and> length (errors res) = 1 \<and> length (transactions res) = 2"
    by (rule exI)
  with e1 e2 e3 show ?thesis by (intro conjI)
qed

theorem categorize_total_fallback_witness:
  "\<not> rule_matches
       \<lparr>keyword_dict = [(u ''supermercato'', u ''alimentari''), (u ''farmacia'', u ''salute'')],
        pattern_dict = [(u ''ADDEBITO SDD'', u ''utenze''), (u ''BONIFICO'', u ''bonifici'')],
        regex_search = (\<lambda>p s. if p = u ''('' then None else Some (includes_str s p)),
        normalize_accents = (\<lambda>s. s), keyword_score = (\<lambda>k d. 7 / 10),
        pattern_score = (\<lambda>p d. 1 / 2)\<rparr>
       \<lparr>r_pattern = u ''NETFLIX'', r_match_type = Contains, r_category_id = u ''abbonamenti'',
         r_priority = 5, r_scope = User\<rparr>
       (u ''PRELIEVO BANCOMAT'') \<and>
   \<not> rule_matches
       \<lparr>keyword_dict = [(u ''supermercato'', u ''alimentari''), (u ''farmacia'', u ''salute'')],
        pattern_dict = [(u ''ADDEBITO SDD'', u ''utenze''), (u ''BONIFICO'', u ''bonifici'')],
        regex_search = (\<lambda>p s. if p = u ''('' then None else Some (includes_str s p)),
        normalize_accents = (\<lambda>s. s), keyword_score = (\<lambda>k d. 7 / 10),
        pattern_score = (\<lambda>p d. 1 / 2)\<rparr>
       \<lparr>r_pattern = u ''('', r_match_type = Regex, r_category_id = u ''altro'',
         r_priority = 9, r_scope = User\<rparr>
       (u ''PRELIEVO BANCOMAT'') \<and>
   ca_matched_by (categorize
       \<lparr>keyword_dict = [(u ''supermercato'', u ''alimentari''), (u ''farmacia'', u ''salute'')],
        pattern_dict = [(u ''ADDEBITO SDD'', u ''utenze''), (u ''BONIFICO'', u ''bonifici'')],
        regex_search = (\<lambda>p s. if p = u ''('' then None else Some (includes_str s p)),
        normalize_accents = (\<lambda>s. s), keyword_score = (\<lambda>k d. 7 / 10),
        pattern_score = (\<lambda>p d. 1 / 2)\<rparr>
       \<lparr>raw_date = (2025, 2, 23), raw_amount = - 200, raw_currency = u ''EUR'',
        raw_description = u ''PRELIEVO BANCOMAT'',
        raw_original_description = u ''PRELIEVO BANCOMAT'',
        raw_type = Expense, raw_metadata = []\<rparr>
       [\<lparr>r_pattern = u ''NETFLIX'', r_match_type = Contains, r_category_id = u ''abbonamenti'',
         r_priority = 5, r_scope = User\<rparr>,
        \<lparr>r_pattern = u ''('', r_match_type = Regex, r_category_id = u ''altro'',
         r_priority = 9, r_scope = User\<rparr>]) = Fallback \<and>
   ca_confidence (categorize
       \<lparr>keyword_dict = [(u ''supermercato'', u ''alimentari''), (u ''farmacia'', u ''salute'')],
        pattern_dict = [(u ''ADDEBITO SDD'', u ''utenze''), (u ''BONIFICO'', u ''bonifici'')],
        regex_search = (\<lambda>p s. if p = u ''('' then None else Some (includes_str s p)),
        normalize_accents = (\<lambda>s. s), keyword_score = (\<lambda>k d. 7 / 10),
        pattern_score = (\<lambda>p d. 1 / 2)\<rparr>
       \<lparr>raw_date = (2025, 2, 23), raw_amount = - 200, raw_currency = u ''EUR'',
        raw_description = u ''PRELIEVO BANCOMAT'',
        raw_original_description = u ''PRELIEVO BANCOMAT'',
        raw_type = Expense, raw_metadata = []\<rparr>
       [\<lparr>r_pattern = u ''NETFLIX'', r_match_type = Contains, r_category_id = u ''abbonamenti'',
         r_priority = 5, r_scope = User\<rparr>,
        \<lparr>r_pattern = u ''('', r_match_type = Regex, r_category_id = u ''altro'',
         r_priority = 9, r_scope = User\<rparr>]) = 0"
proof -
  let ?eng = "\<lparr>keyword_dict = [(u ''supermercato'', u ''alimentari''), (u ''farmacia'', u ''salute'')],
        pattern_dict = [(u ''ADDEBITO SDD'', u ''utenze''), (u ''BONIFICO'', u ''bonifici'')],
        regex_search = (\<lambda>p s. if p = u ''('' then None else Some (includes_str s p)),
        normalize_accents = (\<lambda>s. s), keyword_score = (\<lambda>k d. 7 / 10),
        pattern_score = (\<lambda>p d. 1 / 2)\<rparr>"
  let ?tx = "\<lparr>raw_date = (2025, 2, 23), raw_amount = - 200, raw_currency = u ''EUR'',
        raw_description = u ''PRELIEVO BANCOMAT'',
        raw_original_description = u ''PRELIEVO BANCOMAT'',
        raw_type = Expense, raw_metadata = []\<rparr>"
  let ?r1 = "\<lparr>r_pattern = u ''NETFLIX'', r_match_type = Contains, r_category_id = u ''abbonamenti'',
         r_priority = 5, r_scope = User\<rparr>"
  let ?r2 = "\<lparr>r_pattern = u ''('', r_match_type = Regex, r_category_id = u ''altro'',
         r_priority = 9, r_scope = User\<rparr>"
  have m1: "\<not> rule_matches ?eng ?r1 (u ''PRELIEVO BANCOMAT'')"
    by (simp add: rule_matches_def lower_def u_def startsWith_def)
  have m2: "\<not> rule_matches ?eng ?r2 (u ''PRELIEVO BANCOMAT'')"
    by (simp add: rule_matches_def u_def)
  have h1: "\<forall>r \<in> set [?r1, ?r2]. r_scope r = User \<longrightarrow> \<not> rule_matches ?eng r (raw_description ?tx)"
    using m1 m2 by simp
  have h2: "\<forall>(k, c) \<in> set (keyword_dict ?eng).
           \<not> includes_str (normalize_accents ?eng (lower (raw_description ?tx))) k"
    by (simp add: lower_def u_def startsWith_def)
  have h3: "\<forall>(p, c) \<in> set (pattern_dict ?eng).
           regex_search ?eng p (raw_original_description ?tx) \<noteq> Some True"
    by (simp add: u_def startsWith_def)
  note inst = categorize_total_fallback [OF h1 h2 h3, of ?tx "[?r1, ?r2]"]
  from m1 m2 inst [THEN conjunct1] inst [THEN conjunct2, THEN conjunct1]
  show ?thesis by (intro conjI)
qed

theorem user_rule_precedence_witness:
  "rule_matches
       \<lparr>keyword_dict = [(u ''supermercato'', u ''alimentari''), (u ''netflix'', u ''svago'')],
        pattern_dict = [(u ''ADDEBITO SDD'', u ''utenze'')],
        regex_search = (\<lambda>p s. Some (includes_str s p)),
        normalize_accents = (\<lambda>s. s), keyword_score = (\<lambda>k d. 7 / 10),
        pattern_score = (\<lambda>p d. 1 / 2)\<rparr>
       \<lparr>r_pattern = u ''NETFLIX'', r_match_type = Contains, r_category_id = u ''abbonamenti'',
        r_priority = 5, r_scope = User\<rparr>
       (u ''PAGAMENTO NETFLIX.COM'') \<and>
   includes_str (lower (u ''PAGAMENTO NETFLIX.COM'')) (u ''netflix'') \<and>
   ca_matched_by (categorize
       \<lparr>keyword_dict = [(u ''supermercato'', u ''alimentari''), (u ''netflix'', u ''svago'')],
        pattern_dict = [(u ''ADDEBITO SDD'', u ''utenze'')],
        regex_search = (\<lambda>p s. Some (includes_str s p)),
        normalize_accents = (\<lambda>s. s), keyword_score = (\<lambda>k d. 7 / 10),
        pattern_score = (\<lambda>p d. 1 / 2)\<rparr>
       \<lparr>raw_date = (2025, 2, 24), raw_amount = - 15.99, raw_currency = u ''EUR'',
        raw_description = u ''PAGAMENTO NETFLIX.COM'',
        raw_original_description = u ''PAGAMENTO NETFLIX.COM'',
        raw_type = Expense, raw_metadata = []\<rparr>
       [\<lparr>r_pattern = u ''NETFLIX'', r_match_type = Contains, r_category_id = u ''abbonamenti'',
         r_priority = 5, r_scope = User\<rparr>]) = UserRule \<and>
   ca_confidence (categorize
       \<lparr>keyword_dict = [(u ''supermercato'', u ''alimentari''), (u ''netflix'', u ''svago'')],
        pattern_dict = [(u ''ADDEBITO SDD'', u ''utenze'')],
        regex_search = (\<lambda>p s. Some (includes_str s p)),
        normalize_accents = (\<lambda>s. s), keyword_score = (\<lambda>k d. 7 / 10),
        pattern_score = (\<lambda>p d. 1 / 2)\<rparr>
       \<lparr>raw_date = (2025, 2, 24), raw_amount = - 15.99, raw_currency = u ''EUR'',
        raw_description = u ''PAGAMENTO NETFLIX.COM'',
        raw_original_description = u ''PAGAMENTO NETFLIX.COM'',
        raw_type = Expense, raw_metadata = []\<rparr>
       [\<lparr>r_pattern = u ''NETFLIX'', r_match_type = Contains, r_category_id = u ''abbonamenti'',
         r_priority = 5, r_scope = User\<rparr>]) = 1"
proof -
  let ?eng = "\<lparr>keyword_dict = [(u ''supermercato'', u ''alimentari''), (u ''netflix'', u ''svago'')],
        pattern_dict = [(u ''ADDEBITO SDD'', u ''utenze'')],
        regex_search = (\<lambda>p s. Some (includes_str s p)),
        normalize_accents = (\<lambda>s. s), keyword_score = (\<lambda>k d. 7 / 10),
        pattern_score = (\<lambda>p d. 1 / 2)\<rparr>"
  let ?tx = "\<lparr>raw_date = (2025, 2, 24), raw_amount = - 15.99, raw_currency = u ''EUR'',
        raw_description = u ''PAGAMENTO NETFLIX.COM'',
        raw_original_description = u ''PAGAMENTO NETFLIX.COM'',
        raw_type = Expense, raw_metadata = []\<rparr>"
  let ?r = "\<lparr>r_pattern = u ''NETFLIX'', r_match_type = Contains, r_category_id = u ''abbonamenti'',
         r_priority = 5, r_scope = User\<rparr>"
  have m: "rule_matches ?eng ?r (u ''PAGAMENTO NETFLIX.COM'')"
    by (simp add: rule_matches_def lower_def u_def startsWith_def)
  have i: "includes_str (lower (u ''PAGAMENTO NETFLIX.COM'')) (u ''netflix'')"
    by (simp add: lower_def u_def startsWith_def)
  have h1: "?r \<in> set [?r]" by simp
  have h2: "r_scope ?r = User" by simp
  have h3: "rule_matches ?eng ?r (raw_description ?tx)" using m by simp
  have h4: "(u ''netflix'', u ''svago'') \<in> set (keyword_dict ?eng)" by simp
  have h5: "includes_str (normalize_accents ?eng (lower (raw_description ?tx))) (u ''netflix'')"
    using i by simp
  note inst = user_rule_precedence [OF h1 h2 h3 h4 h5]
  from m i inst [THEN conjunct1] inst [THEN conjunct2, THEN conjunct1]
  show ?thesis by (intro conjI)
qed

end
